theory Spec2Isabelle
  imports Main
begin

section \<open>ClearCast AI: session state, generation client and handlers\<close>

text \<open>
  The development embeds the application component of \<^verbatim>\<open>src/App.tsx\<close> (its state
  variables and its event handlers) and the generation client of
  \<^verbatim>\<open>services/gemini\<close> (\<^verbatim>\<open>removeWatermarkFromImage\<close>,
  \<^verbatim>\<open>processVideoWatermark\<close>, \<^verbatim>\<open>fileToBase64\<close>).

  Every handler is a function from the state it closes over to the state after all of its
  \<^verbatim>\<open>set...\<close> calls, paired with the list of calls it made to the outside world, in
  order. What the outside world answers (the remote service, the host's key service, the
  file reader, the clock) is an explicit argument.
\<close>

subsection \<open>JavaScript values\<close>

text \<open>
  A \<^verbatim>\<open>string | null\<close> (or an optional property) is a \<open>string option\<close>.
  In a condition, \<^verbatim>\<open>null\<close>, \<^verbatim>\<open>undefined\<close> and the empty string are falsy.
\<close>

fun truthy :: "string option \<Rightarrow> bool" where
  "truthy None = False"
| "truthy (Some s) = (s \<noteq> [])"

text \<open>
  Where the text of a missing value matters, \<^verbatim>\<open>undefined\<close> (an absent property, an unset
  environment variable) and \<^verbatim>\<open>null\<close> are kept apart: a template literal prints the one
  as \<^verbatim>\<open>undefined\<close> and the other as \<^verbatim>\<open>null\<close>.
\<close>

datatype jsstring = Undefined | Null | Str string

fun template :: "jsstring \<Rightarrow> string" where
  "template Undefined = ''undefined''"
| "template Null = ''null''"
| "template (Str s) = s"

text \<open>\<^verbatim>\<open>s.startsWith(p)\<close>\<close>

definition startsWith :: "string \<Rightarrow> string \<Rightarrow> bool" where
  "startsWith s p = (take (length p) s = p)"

text \<open>\<^verbatim>\<open>s.includes(m)\<close>: \<open>m\<close> occurs in \<open>s\<close> at some position.\<close>

fun str_includes :: "string \<Rightarrow> string \<Rightarrow> bool" where
  "str_includes [] m = (m = [])"
| "str_includes (c # cs) m = (startsWith (c # cs) m \<or> str_includes cs m)"

text \<open>\<^verbatim>\<open>s.split(sep)\<close> for a one-character separator: never an empty array.\<close>

fun split :: "char \<Rightarrow> string \<Rightarrow> string list" where
  "split sep [] = [[]]"
| "split sep (c # cs) =
     (if c = sep then [] # split sep cs
      else (case split sep cs of
              [] \<Rightarrow> [[c]]
            | w # ws \<Rightarrow> (c # w) # ws))"

text \<open>\<^verbatim>\<open>xs[i]\<close>: \<^verbatim>\<open>undefined\<close> out of range.\<close>

fun index :: "'a list \<Rightarrow> nat \<Rightarrow> 'a option" where
  "index [] i = None"
| "index (x # xs) 0 = Some x"
| "index (x # xs) (Suc i) = index xs i"

subsection \<open>Data of the application\<close>

datatype tab = Image | Video

datatype aspectRatio = R16_9 | R9_16

text \<open>\<^verbatim>\<open>interface EditHistory\<close>\<close>

record EditHistory =
  entry_type :: tab
  original :: string
  edited :: string
  timestamp :: nat

text \<open>The \<^verbatim>\<open>useState\<close> variables of \<^verbatim>\<open>App\<close>.\<close>

record app =
  activeTab :: tab
  selectedFile :: "string option"
  mimeType :: string
  processedResult :: "string option"
  isProcessing :: bool
  history :: "EditHistory list"
  error :: "string option"
  instruction :: string
  videoAspectRatio :: aspectRatio

text \<open>The state of a freshly mounted component.\<close>

definition initial :: app where
  "initial =
     \<lparr> activeTab = Image, selectedFile = None, mimeType = [], processedResult = None,
       isProcessing = False, history = [], error = None,
       instruction = ''Remove the watermark and logos, keeping the background seamless.'',
       videoAspectRatio = R16_9 \<rparr>"

subsection \<open>Data of the outside world\<close>

text \<open>A thrown value: an object whose \<^verbatim>\<open>message\<close> may be missing.\<close>

datatype fault = Fault (message: "string option")

text \<open>A browser \<^verbatim>\<open>File\<close>: its name and its declared type.\<close>

datatype input_file = File (file_name: string) (file_type: string)

text \<open>
  The answer of \<^verbatim>\<open>generateContent\<close>, as far as the client reads it:
  \<^verbatim>\<open>response.candidates?.[0]?.content?.parts\<close>, each part with an optional
  \<^verbatim>\<open>inlineData\<close> of optional \<^verbatim>\<open>mimeType\<close> and \<^verbatim>\<open>data\<close>.
\<close>

datatype blob = Blob (blob_mimeType: jsstring) (blob_data: jsstring)

datatype part = Part (inlineData: "blob option") (part_text: "string option")

datatype content = Content (parts: "part list option")

datatype candidate = Candidate (content: "content option")

datatype generateContentResponse = GenerateContentResponse (candidates: "candidate list option")

text \<open>
  A video operation: the handle \<open>name\<close> the remote service knows it by, the
  \<^verbatim>\<open>done\<close> flag (optional) and
  \<^verbatim>\<open>response?.generatedVideos?.[0]?.video?.uri\<close>.
\<close>

datatype video = VideoRef (uri: "string option")

datatype generatedVideo = GeneratedVideo (video: "video option")

datatype generateVideosResponse = GenerateVideosResponse (generatedVideos: "generatedVideo list option")

datatype operation =
  Operation (name: string) (is_done: "bool option") (response: "generateVideosResponse option")

text \<open>
  The calls a handler makes to the outside world. The constant fields of a request
  (\<^verbatim>\<open>model\<close>, \<^verbatim>\<open>numberOfVideos\<close>, \<^verbatim>\<open>resolution\<close>) are kept as written.
\<close>

datatype event =
    GenerateContent string string string string
      \<comment> \<open>model, inlineData.data, inlineData.mimeType, text\<close>
  | GenerateVideos string string nat string aspectRatio
      \<comment> \<open>model, prompt, numberOfVideos, resolution, aspectRatio\<close>
  | SetTimeout nat
      \<comment> \<open>milliseconds\<close>
  | GetVideosOperation operation
  | HasSelectedApiKey
  | OpenSelectKey
  | ReadAsDataURL input_file
  | ConsoleError string fault
      \<comment> \<open>label (empty when there is none), logged value\<close>


text \<open>
  How an awaited call ends: it returns a value, it throws, or it is still pending
  (it never settles).
\<close>

datatype 'a outcome = Returned 'a | Thrown fault | Pending

text \<open>
  What the outside world answers during one run of a handler:
  the environment's \<^verbatim>\<open>API_KEY\<close>, the clock, the answer to the image request, the
  answer of \<^verbatim>\<open>hasSelectedApiKey\<close>, the answer to the video submission, and the
  answers to the successive polls. A poll past the end of the list is never answered.
\<close>

record world =
  API_KEY :: jsstring
  now :: nat
  generateContent :: "fault + generateContentResponse"
  hasSelectedApiKey :: bool
  generateVideos :: "fault + operation"
  getVideosOperation :: "(fault + operation) list"

subsection \<open>The generation client\<close>

text \<open>\<^verbatim>\<open>response.candidates?.[0]?.content?.parts || []\<close>\<close>

definition response_parts :: "generateContentResponse \<Rightarrow> part list" where
  "response_parts r =
     (case candidates r of
        None \<Rightarrow> []
      | Some cs \<Rightarrow>
          (case index cs 0 of
             None \<Rightarrow> []
           | Some c \<Rightarrow>
               (case content c of
                  None \<Rightarrow> []
                | Some ct \<Rightarrow> (case parts ct of None \<Rightarrow> [] | Some ps \<Rightarrow> ps))))"

text \<open>
  The \<^verbatim>\<open>for\<close> loop over the parts: the first part with \<^verbatim>\<open>inlineData\<close> is returned
  as a data URL; \<^verbatim>\<open>null\<close> when the loop ends.
\<close>

fun first_inline :: "part list \<Rightarrow> string option" where
  "first_inline [] = None"
| "first_inline (p # ps) =
     (case inlineData p of
        Some b \<Rightarrow>
          Some (''data:'' @ template (blob_mimeType b) @ '';base64,'' @ template (blob_data b))
      | None \<Rightarrow> first_inline ps)"

text \<open>\<^verbatim>\<open>base64Image.split(',')[1] || base64Image\<close>\<close>

definition payload :: "string \<Rightarrow> string" where
  "payload base64Image =
     (case index (split CHR '','' base64Image) 1 of
        Some d \<Rightarrow> if d \<noteq> [] then d else base64Image
      | None \<Rightarrow> base64Image)"

text \<open>
  \<^verbatim>\<open>removeWatermarkFromImage(base64Image, mimeType, instruction)\<close>, given the answer to
  its one request. A fault is logged and thrown again.
\<close>

definition removeWatermarkFromImage ::
  "string \<Rightarrow> string \<Rightarrow> string \<Rightarrow> fault + generateContentResponse
     \<Rightarrow> string option outcome \<times> event list" where
  "removeWatermarkFromImage base64Image mime instr answer =
     (let request = GenerateContent ''gemini-2.5-flash-image'' (payload base64Image) mime instr
      in case answer of
           Inr resp \<Rightarrow> (Returned (first_inline (response_parts resp)), [request])
         | Inl e \<Rightarrow> (Thrown e, [request, ConsoleError ''Gemini API Error:'' e]))"

text \<open>\<^verbatim>\<open>!operation.done\<close>\<close>

definition not_done :: "operation \<Rightarrow> bool" where
  "not_done op = (is_done op \<noteq> Some True)"

text \<open>
  The \<^verbatim>\<open>while (!operation.done)\<close> loop: wait 10000 ms, ask for the operation held in
  \<^verbatim>\<open>operation\<close>, and store the answer in \<^verbatim>\<open>operation\<close>. The loop has no bound of its
  own: it ends when an answer is done or a poll throws, and it is pending when the
  answers run out first.
\<close>

fun poll :: "operation \<Rightarrow> (fault + operation) list \<Rightarrow> operation outcome \<times> event list" where
  "poll op [] =
     (if not_done op then (Pending, [SetTimeout 10000, GetVideosOperation op])
      else (Returned op, []))"
| "poll op (answer # answers) =
     (if not_done op then
        (case answer of
           Inl e \<Rightarrow> (Thrown e, [SetTimeout 10000, GetVideosOperation op])
         | Inr op' \<Rightarrow>
             (case poll op' answers of
                (r, tr) \<Rightarrow> (r, SetTimeout 10000 # GetVideosOperation op # tr)))
      else (Returned op, []))"

text \<open>\<^verbatim>\<open>operation.response?.generatedVideos?.[0]?.video?.uri\<close>\<close>

definition downloadLink :: "operation \<Rightarrow> string option" where
  "downloadLink op =
     (case response op of
        None \<Rightarrow> None
      | Some r \<Rightarrow>
          (case generatedVideos r of
             None \<Rightarrow> None
           | Some vs \<Rightarrow>
               (case index vs 0 of
                  None \<Rightarrow> None
                | Some g \<Rightarrow> (case video g of None \<Rightarrow> None | Some v \<Rightarrow> uri v))))"

text \<open>
  \<^verbatim>\<open>if (!downloadLink) return null; return `${downloadLink}&key=${process.env.API_KEY}`\<close>
\<close>

definition download_result :: "operation \<Rightarrow> jsstring \<Rightarrow> string option" where
  "download_result op key =
     (case downloadLink op of
        None \<Rightarrow> None
      | Some l \<Rightarrow> if l \<noteq> [] then Some (l @ ''&key='' @ template key) else None)"

definition video_prompt :: "string \<Rightarrow> string" where
  "video_prompt prompt =
     prompt @ ''. Ensure the video is completely clean with no watermarks, logos, or overlays. High quality, seamless textures.''"

text \<open>
  \<^verbatim>\<open>processVideoWatermark(prompt, aspectRatio)\<close>, given the environment's key, the answer
  to the submission and the answers to the polls. A fault of the submission or of a poll is
  logged and thrown again.
\<close>

definition processVideoWatermark ::
  "string \<Rightarrow> aspectRatio \<Rightarrow> jsstring \<Rightarrow> fault + operation \<Rightarrow> (fault + operation) list
     \<Rightarrow> string option outcome \<times> event list" where
  "processVideoWatermark prompt aspect key submitted answers =
     (let request = GenerateVideos ''veo-3.1-fast-generate-preview'' (video_prompt prompt)
                      1 ''720p'' aspect
      in case submitted of
           Inl e \<Rightarrow> (Thrown e, [request, ConsoleError ''Video Generation Error:'' e])
         | Inr op0 \<Rightarrow>
             (case poll op0 answers of
                (Returned op, tr) \<Rightarrow> (Returned (download_result op key), request # tr)
              | (Thrown e, tr) \<Rightarrow>
                  (Thrown e, request # tr @ [ConsoleError ''Video Generation Error:'' e])
              | (Pending, tr) \<Rightarrow> (Pending, request # tr)))"

text \<open>
  \<^verbatim>\<open>fileToBase64(file)\<close>: the reader's answer is the data URL, or a fault.
\<close>

definition fileToBase64 :: "input_file \<Rightarrow> fault + string \<Rightarrow> string outcome \<times> event list" where
  "fileToBase64 f answer =
     (case answer of
        Inr url \<Rightarrow> (Returned url, [ReadAsDataURL f])
      | Inl e \<Rightarrow> (Thrown e, [ReadAsDataURL f]))"

subsection \<open>The handlers of the application\<close>

text \<open>
  \<^verbatim>\<open>checkAndPromptKey\<close>: in video mode the host is asked whether a key is selected, and
  its selection dialog is opened when none is. The calls it makes; it returns
  \<^verbatim>\<open>true\<close> on every path. The host's two functions are taken to return.
\<close>

definition checkAndPromptKey :: "tab \<Rightarrow> bool \<Rightarrow> event list" where
  "checkAndPromptKey t hasKey =
     (if t = Video then
        (if \<not> hasKey then [HasSelectedApiKey, OpenSelectKey] else [HasSelectedApiKey])
      else [])"

text \<open>\<^verbatim>\<open>addToHistory(type, original, edited)\<close>, with the clock's \<^verbatim>\<open>Date.now()\<close>.\<close>

definition addToHistory :: "tab \<Rightarrow> string \<Rightarrow> string \<Rightarrow> nat \<Rightarrow> app \<Rightarrow> app" where
  "addToHistory t orig ed time s =
     s\<lparr>history :=
          \<lparr>entry_type = t, original = orig, edited = ed, timestamp = time\<rparr> # history s\<rparr>"

text \<open>\<^verbatim>\<open>clearCurrent\<close>\<close>

definition clearCurrent :: "app \<Rightarrow> app" where
  "clearCurrent s = s\<lparr>selectedFile := None, processedResult := None, error := None\<rparr>"

text \<open>The two mode buttons: \<^verbatim>\<open>setActiveTab(t); clearCurrent()\<close>\<close>

definition tab_onClick :: "tab \<Rightarrow> app \<Rightarrow> app" where
  "tab_onClick t s = clearCurrent (s\<lparr>activeTab := t\<rparr>)"

text \<open>
  \<^verbatim>\<open>handleFileSelect\<close>, for the first file of the change event (if any) and the reader's
  answer.
\<close>

definition handleFileSelect :: "app \<Rightarrow> input_file option \<Rightarrow> fault + string \<Rightarrow> app \<times> event list" where
  "handleFileSelect s selected answer =
     (case selected of
        None \<Rightarrow> (s, [])
      | Some f \<Rightarrow>
          if activeTab s = Image \<and> \<not> startsWith (file_type f) ''image/'' then
            (s\<lparr>error := Some ''Please select an image file.''\<rparr>, [])
          else if activeTab s = Video \<and> \<not> startsWith (file_type f) ''video/'' then
            (s\<lparr>error := Some ''Please select a video file.''\<rparr>, [])
          else
            (let s1 = s\<lparr>mimeType := file_type f\<rparr>
             in case fileToBase64 f answer of
                  (Returned base64, tr) \<Rightarrow>
                    (s1\<lparr>selectedFile := Some base64, processedResult := None, error := None\<rparr>, tr)
                | (Thrown e, tr) \<Rightarrow> (s1\<lparr>error := Some ''Error reading file.''\<rparr>, tr)
                | (Pending, tr) \<Rightarrow> (s1, tr)))"

text \<open>
  The awaited calls of the \<^verbatim>\<open>try\<close> block of \<^verbatim>\<open>handleProcess\<close>: in image mode
  \<^verbatim>\<open>removeWatermarkFromImage(selectedFile, mimeType, instruction)\<close>; otherwise
  \<^verbatim>\<open>checkAndPromptKey()\<close>, then
  \<^verbatim>\<open>processVideoWatermark(instruction, videoAspectRatio)\<close>.
\<close>

definition generate :: "app \<Rightarrow> string \<Rightarrow> world \<Rightarrow> string option outcome \<times> event list" where
  "generate s src w =
     (if activeTab s = Image then
        removeWatermarkFromImage src (mimeType s) (instruction s) (generateContent w)
      else
        (case processVideoWatermark (instruction s) (videoAspectRatio s) (API_KEY w)
                (generateVideos w) (getVideosOperation w) of
           (r, tr) \<Rightarrow> (r, checkAndPromptKey (activeTab s) (hasSelectedApiKey w) @ tr)))"

text \<open>
  What the \<^verbatim>\<open>try\<close> block does with the result, in either mode:
  \<^verbatim>\<open>if (result) { setProcessedResult(result); addToHistory(..., selectedFile, result); }
  else { setError(...); }\<close>
  The branch is chosen by the \<^verbatim>\<open>activeTab\<close> of the render the handler was created in, and
  \<^verbatim>\<open>selectedFile\<close> is that render's; the \<^verbatim>\<open>set...\<close> calls act on the state as it is when
  the awaited call settles.
\<close>

definition on_result :: "tab \<Rightarrow> string \<Rightarrow> string option \<Rightarrow> nat \<Rightarrow> app \<Rightarrow> app" where
  "on_result t src result time s =
     (if t = Image then
        (case result of
           Some r \<Rightarrow>
             if r \<noteq> [] then addToHistory Image src r time (s\<lparr>processedResult := Some r\<rparr>)
             else s\<lparr>error := Some ''Failed to process the image.''\<rparr>
         | None \<Rightarrow> s\<lparr>error := Some ''Failed to process the image.''\<rparr>)
      else
        (case result of
           Some r \<Rightarrow>
             if r \<noteq> [] then addToHistory Video src r time (s\<lparr>processedResult := Some r\<rparr>)
             else s\<lparr>error := Some ''Video processing timed out or failed.''\<rparr>
         | None \<Rightarrow> s\<lparr>error := Some ''Video processing timed out or failed.''\<rparr>))"

text \<open>The \<^verbatim>\<open>catch\<close> block of \<^verbatim>\<open>handleProcess\<close>.\<close>

definition auth_marker :: string where
  "auth_marker = ''Requested entity was not found''"

definition key_error :: string where
  "key_error = ''API Key configuration error. Please select a valid key.''"

text \<open>\<^verbatim>\<open>err.message?.includes("Requested entity was not found")\<close>\<close>

definition has_marker :: "fault \<Rightarrow> bool" where
  "has_marker err = (case message err of None \<Rightarrow> False | Some m \<Rightarrow> str_includes m auth_marker)"

text \<open>\<^verbatim>\<open>err.message || "An unexpected error occurred."\<close>\<close>

definition shown_message :: "fault \<Rightarrow> string" where
  "shown_message err =
     (case message err of
        None \<Rightarrow> ''An unexpected error occurred.''
      | Some m \<Rightarrow> if m \<noteq> [] then m else ''An unexpected error occurred.'')"

definition catch_block :: "fault \<Rightarrow> app \<Rightarrow> app \<times> event list" where
  "catch_block err s =
     (if has_marker err then (s\<lparr>error := Some key_error\<rparr>, [OpenSelectKey, ConsoleError [] err])
      else (s\<lparr>error := Some (shown_message err)\<rparr>, [ConsoleError [] err]))"

text \<open>
  \<^verbatim>\<open>handleProcess\<close>, when no other handler runs while it awaits. It returns at once when
  \<^verbatim>\<open>selectedFile\<close> is falsy. The \<^verbatim>\<open>finally\<close> block runs after the \<^verbatim>\<open>try\<close> block or
  the \<^verbatim>\<open>catch\<close> block; when the video poll is pending it is never reached.
\<close>

definition handleProcess :: "app \<Rightarrow> world \<Rightarrow> app \<times> event list" where
  "handleProcess s w =
     (case selectedFile s of
        None \<Rightarrow> (s, [])
      | Some src \<Rightarrow>
          if src = [] then (s, [])
          else
            (let s1 = s\<lparr>isProcessing := True, error := None\<rparr>
             in case generate s1 src w of
                  (Returned result, tr) \<Rightarrow>
                    ((on_result (activeTab s) src result (now w) s1)\<lparr>isProcessing := False\<rparr>,
                     tr)
                | (Thrown err, tr) \<Rightarrow>
                    (case catch_block err s1 of
                       (s2, tr') \<Rightarrow> (s2\<lparr>isProcessing := False\<rparr>, tr @ tr'))
                | (Pending, tr) \<Rightarrow> (s1, tr)))"

text \<open>
  \<^verbatim>\<open>handleProcess\<close>, when other handlers run while it awaits. All of its \<^verbatim>\<open>set...\<close>
  calls come before the first awaited call or after the last one, so what the other
  handlers did in between is one change \<open>during\<close> of the state the start of the run left.
  The awaited calls read the values of the render the handler was created in
  (\<^verbatim>\<open>selectedFile\<close>, \<^verbatim>\<open>activeTab\<close>, \<^verbatim>\<open>mimeType\<close>, \<^verbatim>\<open>instruction\<close>,
  \<^verbatim>\<open>videoAspectRatio\<close>); the \<^verbatim>\<open>set...\<close> calls after them act on the changed state.
  The buttons that stay enabled during the await are the discard button
  (\<^verbatim>\<open>clearCurrent\<close>), the mode buttons and the items of the history list.
\<close>

definition handleProcess_during :: "(app \<Rightarrow> app) \<Rightarrow> app \<Rightarrow> world \<Rightarrow> app \<times> event list" where
  "handleProcess_during during s w =
     (case selectedFile s of
        None \<Rightarrow> (s, [])
      | Some src \<Rightarrow>
          if src = [] then (s, [])
          else
            (let s1 = during (s\<lparr>isProcessing := True, error := None\<rparr>)
             in case generate s src w of
                  (Returned result, tr) \<Rightarrow>
                    ((on_result (activeTab s) src result (now w) s1)\<lparr>isProcessing := False\<rparr>,
                     tr)
                | (Thrown err, tr) \<Rightarrow>
                    (case catch_block err s1 of
                       (s2, tr') \<Rightarrow> (s2\<lparr>isProcessing := False\<rparr>, tr @ tr'))
                | (Pending, tr) \<Rightarrow> (s1, tr)))"

text \<open>
  The start/refine button of the editor: \<^verbatim>\<open>onClick={handleProcess}\<close> with
  \<^verbatim>\<open>disabled={isProcessing}\<close>. A disabled button raises no click, so the handler runs
  only while \<^verbatim>\<open>isProcessing\<close> is false. (The editor, and the button with it, is rendered
  only while \<^verbatim>\<open>selectedFile\<close> is truthy; the handler's own guard covers the other case.)
\<close>

definition processButton_onClick :: "app \<Rightarrow> world \<Rightarrow> app \<times> event list" where
  "processButton_onClick s w = (if isProcessing s then (s, []) else handleProcess s w)"

text \<open>
  A click on an item of the history list:
  \<^verbatim>\<open>setActiveTab(item.type); setSelectedFile(item.original); setProcessedResult(item.edited)\<close>
\<close>

definition history_onClick :: "EditHistory \<Rightarrow> app \<Rightarrow> app" where
  "history_onClick item s =
     s\<lparr>activeTab := entry_type item, selectedFile := Some (original item),
       processedResult := Some (edited item)\<rparr>"

text \<open>
  The editor is rendered only while \<^verbatim>\<open>selectedFile\<close> is truthy. Its preview pane shows
  \<^verbatim>\<open>processedResult\<close> when that is truthy, the selected file otherwise; its error banner
  is shown when \<^verbatim>\<open>error\<close> is truthy. Without a source the page shows neither.
\<close>

definition preview :: "app \<Rightarrow> string option" where
  "preview s =
     (if truthy (selectedFile s) then
        (if truthy (processedResult s) then processedResult s else selectedFile s)
      else None)"

definition error_banner :: "app \<Rightarrow> string option" where
  "error_banner s =
     (if truthy (selectedFile s) then (if truthy (error s) then error s else None)
      else None)"

subsection \<open>Vocabulary of the statements\<close>

text \<open>
  The operations the service has returned before its first fault, in order: the values the
  variable \<^verbatim>\<open>operation\<close> can take after the submission.
\<close>

fun returned :: "(fault + operation) list \<Rightarrow> operation list" where
  "returned [] = []"
| "returned (Inl e # answers) = []"
| "returned (Inr op # answers) = op # returned answers"

text \<open>The first fault among the answers, if any.\<close>

fun first_fault :: "(fault + operation) list \<Rightarrow> fault option" where
  "first_fault [] = None"
| "first_fault (Inl e # answers) = Some e"
| "first_fault (Inr op # answers) = first_fault answers"

text \<open>One round of the loop: the suspension, then the poll.\<close>

definition round :: "operation \<Rightarrow> event list" where
  "round q = [SetTimeout 10000, GetVideosOperation q]"

text \<open>
  The file's declared type does not fit the active mode: one of the two guards of
  \<^verbatim>\<open>handleFileSelect\<close> fires.
\<close>

definition wrong_type :: "tab \<Rightarrow> input_file \<Rightarrow> bool" where
  "wrong_type t f =
     (case t of
        Image \<Rightarrow> \<not> startsWith (file_type f) ''image/''
      | Video \<Rightarrow> \<not> startsWith (file_type f) ''video/'')"

definition wrong_type_message :: "tab \<Rightarrow> string" where
  "wrong_type_message t =
     (case t of
        Image \<Rightarrow> ''Please select an image file.''
      | Video \<Rightarrow> ''Please select a video file.'')"

definition empty_result_message :: "tab \<Rightarrow> string" where
  "empty_result_message t =
     (case t of
        Image \<Rightarrow> ''Failed to process the image.''
      | Video \<Rightarrow> ''Video processing timed out or failed.'')"

text \<open>
  The remote call succeeded and gave nothing usable: in image mode the answer has no part
  with inline data; in video mode the first operation reported done has no (or an empty)
  retrieval URI.
\<close>

definition no_usable_asset :: "app \<Rightarrow> world \<Rightarrow> bool" where
  "no_usable_asset s w =
     (case activeTab s of
        Image \<Rightarrow>
          (case generateContent w of
             Inl e \<Rightarrow> False
           | Inr resp \<Rightarrow> list_all (\<lambda>p. inlineData p = None) (response_parts resp))
      | Video \<Rightarrow>
          (case generateVideos w of
             Inl e \<Rightarrow> False
           | Inr op0 \<Rightarrow>
               (case find (\<lambda>q. is_done q = Some True) (op0 # returned (getVideosOperation w)) of
                  None \<Rightarrow> False
                | Some op \<Rightarrow> \<not> truthy (downloadLink op))))"

text \<open>
  The operations the loop polls: the submitted one, then each answer in turn, as long as
  the operation held is not done.
\<close>

definition polled :: "operation \<Rightarrow> (fault + operation) list \<Rightarrow> operation list" where
  "polled op0 answers = takeWhile not_done (op0 # returned answers)"

text \<open>
  A run of \<^verbatim>\<open>handleProcess\<close> on a source that ends without an asset: the client returns a
  falsy result, or it throws.
\<close>

definition run_fails :: "app \<Rightarrow> world \<Rightarrow> bool" where
  "run_fails s w =
     (case selectedFile s of
        None \<Rightarrow> False
      | Some src \<Rightarrow>
          src \<noteq> [] \<and>
          (case fst (generate s src w) of
             Returned r \<Rightarrow> \<not> truthy r
           | Thrown e \<Rightarrow> True
           | Pending \<Rightarrow> False))"



text \<open>
  Following the spec's words, to be compared with what the client computes: the retrieval
  URI of the first generated video of an operation, and nothing when there is no response,
  no list of videos, an empty list, a first entry without a video, or a first video whose
  URI is missing or empty. Later entries of the list do not matter.
\<close>

fun first_video_uri :: "operation \<Rightarrow> string option" where
  "first_video_uri
     (Operation n d (Some (GenerateVideosResponse (Some (GeneratedVideo (Some (VideoRef (Some l))) # vs)))))
     = (if l = [] then None else Some l)"
| "first_video_uri op = None"

text \<open>The operations a list of calls polls for, in order.\<close>

fun poll_requests :: "event list \<Rightarrow> operation list" where
  "poll_requests [] = []"
| "poll_requests (GetVideosOperation q # es) = q # poll_requests es"
| "poll_requests (e # es) = poll_requests es"

subsection \<open>Example data\<close>

text \<open>A loaded image, a loaded video, and a service that answers both kinds of request.\<close>

definition example_image :: app where
  "example_image =
     initial\<lparr>selectedFile := Some ''data:image/png;base64,AAAA'', mimeType := ''image/png''\<rparr>"

definition example_video :: app where
  "example_video =
     initial\<lparr>activeTab := Video, selectedFile := Some ''data:video/mp4;base64,CCCC'',
       mimeType := ''video/mp4'', instruction := ''A beach''\<rparr>"

definition example_done :: operation where
  "example_done =
     Operation ''operations/1'' (Some True)
       (Some (GenerateVideosResponse
          (Some [GeneratedVideo (Some (VideoRef (Some ''https://v/1?alt=media''))),
                 GeneratedVideo (Some (VideoRef (Some ''https://v/2?alt=media'')))])))"

definition example_world :: world where
  "example_world =
     \<lparr> API_KEY = Str ''k'', now = 1000,
       generateContent =
         Inr (GenerateContentResponse (Some [Candidate (Some (Content (Some
           [Part None (Some ''done''),
            Part (Some (Blob (Str ''image/png'') (Str ''BBBB''))) None])))])),
       hasSelectedApiKey = True,
       generateVideos = Inr (Operation ''operations/1'' None None),
       getVideosOperation = [Inr (Operation ''operations/1'' (Some False) None), Inr example_done] \<rparr>"

text \<open>
  An image file and a video file as the picker hands them over, an answer without an
  image, two faults, and the state after one successful image edit.
\<close>

definition example_upload :: input_file where
  "example_upload = File ''logo.png'' ''image/png''"

definition example_clip :: input_file where
  "example_clip = File ''clip.mp4'' ''video/mp4''"

definition example_no_image :: "fault + generateContentResponse" where
  "example_no_image =
     Inr (GenerateContentResponse
       (Some [Candidate (Some (Content (Some [Part None (Some ''no image'')])))]))"

definition example_denied :: fault where
  "example_denied = Fault (Some ''404: Requested entity was not found.'')"

definition example_other_fault :: fault where
  "example_other_fault = Fault (Some ''Quota exceeded'')"

definition example_entry :: EditHistory where
  "example_entry =
     \<lparr>entry_type = Image, original = ''data:image/png;base64,AAAA'',
      edited = ''data:image/png;base64,BBBB'', timestamp = 1000\<rparr>"

definition example_refined :: app where
  "example_refined =
     example_image\<lparr>processedResult := Some ''data:image/png;base64,BBBB'',
       history := [example_entry]\<rparr>"

section \<open>Properties\<close>

subsection \<open>The guard of the start button\<close>

lemma generate_frame:
  "generate (s\<lparr>isProcessing := b, error := e\<rparr>) src w = generate s src w"
  by (simp add: generate_def)

lemma handleProcess_no_source:
  "\<not> truthy (selectedFile s) \<Longrightarrow> handleProcess s w = (s, [])"
  by (cases "selectedFile s") (simp_all add: handleProcess_def)

text \<open>
  The handler itself tests only the source: with a source, it runs whatever
  \<^verbatim>\<open>isProcessing\<close> says. The test of \<^verbatim>\<open>isProcessing\<close> is the button's.
\<close>

lemma handleProcess_ignores_isProcessing:
  "truthy (selectedFile s) \<Longrightarrow> handleProcess (s\<lparr>isProcessing := True\<rparr>) w = handleProcess s w"
  by (cases "selectedFile s")
     (simp_all add: handleProcess_def generate_frame Let_def split: prod.splits outcome.splits)

text \<open>
  Claim C1. Starting the processing (a click on the start/refine button) when the source is
  empty, or when processing is already true, changes nothing of the state (mode, source,
  result, error, history, processing) and makes no call to the outside world, so no
  network call. The guard on the source is the handler's own; the guard on processing is
  the disabled button.
\<close>

theorem startProcessing_guarded:
  "(\<not> truthy (selectedFile s) \<longrightarrow> handleProcess s w = (s, [])) \<and>
   (\<not> truthy (selectedFile s) \<or> isProcessing s \<longrightarrow> processButton_onClick s w = (s, []))"
  by (auto simp: processButton_onClick_def handleProcess_no_source)

theorem startProcessing_guarded_witness:
  "processButton_onClick initial example_world = (initial, []) \<and>
   processButton_onClick (example_image\<lparr>isProcessing := True\<rparr>) example_world
     = (example_image\<lparr>isProcessing := True\<rparr>, [])"
  using startProcessing_guarded [of initial example_world]
    startProcessing_guarded [of "example_image\<lparr>isProcessing := True\<rparr>" example_world]
  by (simp add: initial_def)

subsection \<open>The video poll loop\<close>

lemma poll_trace:
  "snd (poll op answers) = concat (map round (polled op answers))"
proof (induction answers arbitrary: op)
  case Nil
  show ?case by (simp add: polled_def round_def)
next
  case (Cons a answers)
  show ?case
  proof (cases a)
    case (Inl e)
    then show ?thesis by (simp add: polled_def round_def)
  next
    case (Inr op')
    with Cons [of op'] show ?thesis
      by (cases "poll op' answers") (auto simp: polled_def round_def)
  qed
qed

text \<open>
  The loop is total on a finite list of answers, and its end is decided by the answers: the
  first operation reported done, else the first fault, else it is pending.
\<close>

lemma poll_outcome:
  "fst (poll op answers) =
     (case find (\<lambda>q. is_done q = Some True) (op # returned answers) of
        Some d \<Rightarrow> Returned d
      | None \<Rightarrow> (case first_fault answers of Some e \<Rightarrow> Thrown e | None \<Rightarrow> Pending))"
proof (induction answers arbitrary: op)
  case Nil
  show ?case by (simp add: not_done_def)
next
  case (Cons a answers)
  show ?case
  proof (cases a)
    case (Inl e)
    then show ?thesis by (simp add: not_done_def)
  next
    case (Inr op')
    with Cons [of op'] show ?thesis
      by (cases "poll op' answers") (auto simp: not_done_def split: option.splits)
  qed
qed

lemma poll_done:
  assumes "find (\<lambda>q. is_done q = Some True) (op0 # returned answers) = Some op"
  shows "poll op0 answers = (Returned op, concat (map round (polled op0 answers)))"
  using poll_outcome [of op0 answers] poll_trace [of op0 answers] assms
  by (cases "poll op0 answers") simp

lemma poll_requests_rounds:
  "poll_requests (concat (map (\<lambda>q. [SetTimeout 10000, GetVideosOperation q]) qs)) = qs"
  by (induction qs) simp_all

text \<open>
  What the client reads with \<^verbatim>\<open>operation.response?.generatedVideos?.[0]?.video?.uri\<close> is
  the URI of the first generated video.
\<close>

lemma downloadLink_first_video:
  "(case downloadLink op of None \<Rightarrow> None | Some l \<Rightarrow> if l \<noteq> [] then Some l else None)
   = first_video_uri op"
  by (cases op rule: first_video_uri.cases) (simp_all add: downloadLink_def)

lemma download_result_first_video:
  "download_result op key =
     (case first_video_uri op of
        None \<Rightarrow> None
      | Some l \<Rightarrow> Some (l @ ''&key='' @ template key))"
  by (cases op rule: first_video_uri.cases) (simp_all add: download_result_def downloadLink_def)

lemma example_first_done:
  "find (\<lambda>q. is_done q = Some True)
     (Operation ''operations/1'' None None # returned (getVideosOperation example_world))
   = Some example_done"
  by (simp add: example_world_def example_done_def)


lemma example_download:
  "downloadLink example_done = Some ''https://v/1?alt=media''"
  by (simp add: example_done_def downloadLink_def)

text \<open>
  Claim C4 as stated fails: a poll is issued for the operation the client last received,
  not for the handle of the submission. When the service answers the first poll under
  \<^verbatim>\<open>operations/2\<close>, the second poll asks for \<^verbatim>\<open>operations/2\<close>, though the job was
  submitted as \<^verbatim>\<open>operations/1\<close>.
\<close>

theorem video_poll_other_handle_counterexample:
  "map name (poll_requests (snd (processVideoWatermark ''A beach'' R16_9 (Str ''k'')
       (Inr (Operation ''operations/1'' None None))
       [Inr (Operation ''operations/2'' (Some False) None), Inr example_done])))
     = [''operations/1'', ''operations/2''] \<and>
   fst (processVideoWatermark ''A beach'' R16_9 (Str ''k'')
       (Inr (Operation ''operations/1'' None None))
       [Inr (Operation ''operations/2'' (Some False) None), Inr example_done])
     = Returned (Some ''https://v/1?alt=media&key=k'')"
  by (simp add: processVideoWatermark_def not_done_def example_done_def download_result_def
      downloadLink_def)

text \<open>
  Claim C4, amended. In a video generation run whose job is reported done (\<open>op\<close> is the
  first operation reported done: the submitted one, or an answer to a poll before any
  fault), the client returns. Its calls are the submission, then one round per operation
  received and not done, in the order received: a suspension of 10000 ms, then a poll for
  that operation (the submitted one first, after that the answer to the previous poll).
  So every poll carries the handle of the submission when the service answers under that
  handle. The value returned is the URI of the first generated video of \<open>op\<close> followed by
  \<^verbatim>\<open>&key=\<close> and the environment's key (printed \<^verbatim>\<open>undefined\<close> when unset), and
  \<^verbatim>\<open>null\<close> when that URI is missing or empty.
\<close>

theorem video_poll_loop:
  assumes "find (\<lambda>q. is_done q = Some True) (op0 # returned answers) = Some op"
  shows "processVideoWatermark prompt aspect key (Inr op0) answers =
           (Returned
              (case first_video_uri op of
                 None \<Rightarrow> None
               | Some l \<Rightarrow>
                   Some (l @ ''&key='' @
                     (case key of Str k \<Rightarrow> k | Null \<Rightarrow> ''null'' | Undefined \<Rightarrow> ''undefined''))),
            GenerateVideos ''veo-3.1-fast-generate-preview'' (video_prompt prompt) 1 ''720p'' aspect
              # concat (map (\<lambda>q. [SetTimeout 10000, GetVideosOperation q])
                  (takeWhile (\<lambda>q. is_done q \<noteq> Some True) (op0 # returned answers)))) \<and>
         is_done op = Some True \<and>
         ((\<forall>q \<in> set (returned answers). name q = name op0) \<longrightarrow>
            list_all (\<lambda>q. name q = name op0)
              (poll_requests
                 (snd (processVideoWatermark prompt aspect key (Inr op0) answers))))"
proof -
  let ?qs = "takeWhile (\<lambda>q. is_done q \<noteq> Some True) (op0 # returned answers)"
  have qs: "polled op0 answers = ?qs"
    by (simp add: polled_def not_done_def [abs_def])
  have rounds: "round = (\<lambda>q. [SetTimeout 10000, GetVideosOperation q])"
    by (simp add: round_def fun_eq_iff)
  have poll: "poll op0 answers =
      (Returned op, concat (map (\<lambda>q. [SetTimeout 10000, GetVideosOperation q]) ?qs))"
    using poll_done [OF assms] by (simp only: qs rounds)
  have run: "processVideoWatermark prompt aspect key (Inr op0) answers =
           (Returned
              (case first_video_uri op of
                 None \<Rightarrow> None
               | Some l \<Rightarrow>
                   Some (l @ ''&key='' @
                     (case key of Str k \<Rightarrow> k | Null \<Rightarrow> ''null'' | Undefined \<Rightarrow> ''undefined''))),
            GenerateVideos ''veo-3.1-fast-generate-preview'' (video_prompt prompt) 1 ''720p'' aspect
              # concat (map (\<lambda>q. [SetTimeout 10000, GetVideosOperation q]) ?qs))"
    by (cases key)
       (simp_all add: processVideoWatermark_def poll download_result_first_video
          split: option.splits)
  have fin: "is_done op = Some True"
    using assms unfolding find_Some_iff by blast
  have names: "(\<forall>q \<in> set (returned answers). name q = name op0) \<longrightarrow>
      list_all (\<lambda>q. name q = name op0)
        (poll_requests (snd (processVideoWatermark prompt aspect key (Inr op0) answers)))"
  proof
    assume a: "\<forall>q \<in> set (returned answers). name q = name op0"
    have "\<forall>q \<in> set ?qs. name q = name op0"
      using a by (auto dest: set_takeWhileD)
    then show "list_all (\<lambda>q. name q = name op0)
        (poll_requests (snd (processVideoWatermark prompt aspect key (Inr op0) answers)))"
      by (simp only: run snd_conv poll_requests.simps poll_requests_rounds list_all_iff)
  qed
  from conjI [OF run conjI [OF fin names]] show ?thesis .
qed

theorem video_poll_loop_witness:
  "processVideoWatermark ''A beach'' R9_16 (Str ''k'')
     (Inr (Operation ''operations/1'' None None)) (getVideosOperation example_world)
   = (Returned (Some ''https://v/1?alt=media&key=k''),
      [GenerateVideos ''veo-3.1-fast-generate-preview'' (video_prompt ''A beach'') 1 ''720p'' R9_16,
       SetTimeout 10000, GetVideosOperation (Operation ''operations/1'' None None),
       SetTimeout 10000, GetVideosOperation (Operation ''operations/1'' (Some False) None)]) \<and>
   map name (poll_requests (snd (processVideoWatermark ''A beach'' R9_16 (Str ''k'')
     (Inr (Operation ''operations/1'' None None)) (getVideosOperation example_world))))
     = [''operations/1'', ''operations/1'']"
proof -
  have r: "returned (getVideosOperation example_world)
      = [Operation ''operations/1'' (Some False) None, example_done]"
    by (simp add: example_world_def)
  have u: "first_video_uri example_done = Some ''https://v/1?alt=media''"
    by (simp add: example_done_def)
  have d: "is_done example_done = Some True"
    by (simp add: example_done_def)
  from video_poll_loop [OF example_first_done, of "''A beach''" R9_16 "Str ''k''"] r u d
  have "processVideoWatermark ''A beach'' R9_16 (Str ''k'')
     (Inr (Operation ''operations/1'' None None)) (getVideosOperation example_world)
   = (Returned (Some ''https://v/1?alt=media&key=k''),
      [GenerateVideos ''veo-3.1-fast-generate-preview'' (video_prompt ''A beach'') 1 ''720p'' R9_16,
       SetTimeout 10000, GetVideosOperation (Operation ''operations/1'' None None),
       SetTimeout 10000, GetVideosOperation (Operation ''operations/1'' (Some False) None)])"
    by simp
  then show ?thesis by simp
qed

subsection \<open>The four ends of a run of \<^verbatim>\<open>handleProcess\<close>\<close>

lemma handleProcess_success:
  assumes "selectedFile s = Some src" "src \<noteq> []"
    and "generate s src w = (Returned (Some r), tr)" "r \<noteq> []"
  shows "handleProcess s w =
    (s\<lparr>isProcessing := False, error := None, processedResult := Some r,
       history :=
         \<lparr>entry_type = activeTab s, original = src, edited = r, timestamp = now w\<rparr> # history s\<rparr>,
     tr)"
  using assms
  by (cases "activeTab s")
     (simp_all add: handleProcess_def generate_frame on_result_def addToHistory_def)

lemma handleProcess_empty:
  assumes "selectedFile s = Some src" "src \<noteq> []"
    and "generate s src w = (Returned r, tr)" "\<not> truthy r"
  shows "handleProcess s w =
    (s\<lparr>isProcessing := False, error := Some (empty_result_message (activeTab s))\<rparr>, tr)"
  using assms
  by (cases "activeTab s"; cases r)
     (simp_all add: handleProcess_def generate_frame on_result_def empty_result_message_def)

lemma handleProcess_fault:
  assumes "selectedFile s = Some src" "src \<noteq> []" "generate s src w = (Thrown err, tr)"
  shows "handleProcess s w =
    (s\<lparr>isProcessing := False,
       error := Some (if has_marker err then key_error else shown_message err)\<rparr>,
     tr @ (if has_marker err then [OpenSelectKey, ConsoleError [] err]
           else [ConsoleError [] err]))"
  using assms by (simp add: handleProcess_def generate_frame catch_block_def)

text \<open>While the poll is pending the state stays as the start of the run left it.\<close>

lemma handleProcess_pending:
  assumes "selectedFile s = Some src" "src \<noteq> []" "generate s src w = (Pending, tr)"
  shows "handleProcess s w = (s\<lparr>isProcessing := True, error := None\<rparr>, tr)"
  using assms by (simp add: handleProcess_def generate_frame)


subsection \<open>Strings and messages\<close>

lemma startsWith_iff: "startsWith s m \<longleftrightarrow> (\<exists>q. s = m @ q)"
  unfolding startsWith_def
  by (metis append_eq_conv_conj append_take_drop_id)

text \<open>\<open>str_includes\<close> is the substring test.\<close>

lemma str_includes_iff: "str_includes s m \<longleftrightarrow> (\<exists>p q. s = p @ m @ q)"
proof (induction s)
  case Nil
  show ?case by auto
next
  case (Cons c cs)
  show ?case
  proof
    assume "str_includes (c # cs) m"
    then consider "startsWith (c # cs) m" | "str_includes cs m" by auto
    then show "\<exists>p q. c # cs = p @ m @ q"
    proof cases
      case 1
      then obtain q where "c # cs = m @ q" by (auto simp: startsWith_iff)
      then have "c # cs = [] @ m @ q" by simp
      then show ?thesis by blast
    next
      case 2
      then obtain p q where "cs = p @ m @ q" using Cons by auto
      then have "c # cs = (c # p) @ m @ q" by simp
      then show ?thesis by blast
    qed
  next
    assume "\<exists>p q. c # cs = p @ m @ q"
    then obtain p q where pq: "c # cs = p @ m @ q" by blast
    show "str_includes (c # cs) m"
    proof (cases p)
      case Nil
      with pq have "startsWith (c # cs) m" by (auto simp: startsWith_iff)
      then show ?thesis by simp
    next
      case (Cons a p')
      with pq have "cs = p' @ m @ q" by simp
      then have "str_includes cs m" using Cons.IH by blast
      then show ?thesis by simp
    qed
  qed
qed


lemma first_inline_None: "first_inline ps = None \<longleftrightarrow> list_all (\<lambda>p. inlineData p = None) ps"
  by (induction ps) (auto split: option.splits)



lemma shown_message_nonempty: "shown_message err \<noteq> []"
  by (cases err) (simp add: shown_message_def split: option.splits)

lemma empty_result_message_nonempty: "empty_result_message t \<noteq> []"
  by (cases t) (simp_all add: empty_result_message_def)

subsection \<open>The example session\<close>

lemma example_image_source:
  "selectedFile example_image = Some ''data:image/png;base64,AAAA''"
  by (simp add: example_image_def)

lemma example_refined_source:
  "selectedFile example_refined = Some ''data:image/png;base64,AAAA''"
  by (simp add: example_refined_def example_image_def)

lemma example_video_source:
  "selectedFile example_video = Some ''data:video/mp4;base64,CCCC''"
  by (simp add: example_video_def initial_def)

text \<open>Loading \<^verbatim>\<open>logo.png\<close> into the fresh component gives the example image.\<close>

lemma example_load:
  "handleFileSelect initial (Some example_upload) (Inr ''data:image/png;base64,AAAA'')
   = (example_image, [ReadAsDataURL example_upload])"
  by (simp add: handleFileSelect_def initial_def example_upload_def example_image_def
      startsWith_def fileToBase64_def)

text \<open>The first run on it succeeds and gives the refined state.\<close>

lemma example_first_run:
  "handleProcess example_image example_world =
     (example_refined,
      [GenerateContent ''gemini-2.5-flash-image'' ''AAAA'' ''image/png'' (instruction initial)])"
proof -
  have "generate example_image ''data:image/png;base64,AAAA'' example_world =
      (Returned (Some ''data:image/png;base64,BBBB''),
       [GenerateContent ''gemini-2.5-flash-image'' ''AAAA'' ''image/png'' (instruction initial)])"
    by (simp add: generate_def removeWatermarkFromImage_def example_image_def example_world_def
        response_parts_def payload_def initial_def)
  from handleProcess_success [OF example_image_source _ this] show ?thesis
    by (simp add: example_refined_def example_image_def example_entry_def initial_def
        example_world_def)
qed

text \<open>A second run (a refine) whose answer has no image leaves an error.\<close>

lemma example_second_run:
  "handleProcess example_refined (example_world\<lparr>generateContent := example_no_image\<rparr>) =
     (example_refined\<lparr>error := Some ''Failed to process the image.''\<rparr>,
      [GenerateContent ''gemini-2.5-flash-image'' ''AAAA'' ''image/png'' (instruction initial)])"
proof -
  have "generate example_refined ''data:image/png;base64,AAAA''
          (example_world\<lparr>generateContent := example_no_image\<rparr>) =
      (Returned None,
       [GenerateContent ''gemini-2.5-flash-image'' ''AAAA'' ''image/png'' (instruction initial)])"
    by (simp add: generate_def removeWatermarkFromImage_def example_refined_def example_image_def
        example_no_image_def response_parts_def payload_def initial_def)
  from handleProcess_empty [OF example_refined_source _ this] show ?thesis
    by (simp add: example_refined_def example_image_def initial_def empty_result_message_def)
qed

subsection \<open>A successful image edit\<close>




subsection \<open>An empty result\<close>

lemma no_usable_asset_generate:
  assumes "no_usable_asset s w"
  shows "fst (generate s src w) = Returned None"
proof (cases "activeTab s")
  case Image
  with assms show ?thesis
    by (auto simp: no_usable_asset_def generate_def removeWatermarkFromImage_def first_inline_None
        split: sum.splits)
next
  case Video
  with assms obtain op0 op where sub: "generateVideos w = Inr op0"
    and fd: "find (\<lambda>q. is_done q = Some True) (op0 # returned (getVideosOperation w)) = Some op"
    and nl: "\<not> truthy (downloadLink op)"
    by (auto simp: no_usable_asset_def split: sum.splits option.splits)
  have "download_result op (API_KEY w) = None"
    using nl by (cases "downloadLink op") (simp_all add: download_result_def)
  with Video sub poll_done [OF fd] show ?thesis
    by (simp add: generate_def processVideoWatermark_def)
qed


lemma example_no_image_unusable:
  "no_usable_asset example_refined (example_world\<lparr>generateContent := example_no_image\<rparr>)"
  by (simp add: no_usable_asset_def example_refined_def example_image_def initial_def
      example_no_image_def response_parts_def)



subsection \<open>A failed refine\<close>

text \<open>A run during which no other handler changes the state is the plain run.\<close>

lemma handleProcess_during_same:
  assumes "during (s\<lparr>isProcessing := True, error := None\<rparr>)
             = s\<lparr>isProcessing := True, error := None\<rparr>"
  shows "handleProcess_during during s w = handleProcess s w"
  using assms
  by (cases "selectedFile s")
     (simp_all add: handleProcess_during_def handleProcess_def generate_frame Let_def)

lemma example_run_fails:
  "run_fails example_refined (example_world\<lparr>generateContent := example_no_image\<rparr>)"
  using no_usable_asset_generate [OF example_no_image_unusable, of "''data:image/png;base64,AAAA''"]
  by (simp add: run_fails_def example_refined_source)

lemma example_run_throws:
  "run_fails example_refined (example_world\<lparr>generateContent := Inl example_other_fault\<rparr>)"
  by (simp add: run_fails_def example_refined_source generate_def removeWatermarkFromImage_def
      example_refined_def example_image_def initial_def)

text \<open>
  Claim C10 as stated fails: the discard button stays enabled while the handler awaits, and
  what the handler sets after the await lands on the state as it then is. A refine that
  is discarded during the await and then gets an answer with no image ends with no source
  and no result, and with an error: the earlier result is neither held nor shown.
\<close>

theorem discarded_refine_counterexample:
  "truthy (processedResult example_refined) \<and>
   run_fails example_refined (example_world\<lparr>generateContent := example_no_image\<rparr>) \<and>
   fst (handleProcess_during clearCurrent example_refined
          (example_world\<lparr>generateContent := example_no_image\<rparr>))
     = example_refined\<lparr>selectedFile := None, processedResult := None,
         error := Some ''Failed to process the image.''\<rparr> \<and>
   preview (fst (handleProcess_during clearCurrent example_refined
          (example_world\<lparr>generateContent := example_no_image\<rparr>))) = None"
proof -
  have g: "generate example_refined ''data:image/png;base64,AAAA''
          (example_world\<lparr>generateContent := example_no_image\<rparr>) =
      (Returned None,
       [GenerateContent ''gemini-2.5-flash-image'' ''AAAA'' ''image/png'' (instruction initial)])"
    by (simp add: generate_def removeWatermarkFromImage_def example_refined_def example_image_def
        example_no_image_def response_parts_def payload_def initial_def)
  have t: "activeTab example_refined = Image"
    by (simp add: example_refined_def example_image_def initial_def)
  have run: "fst (handleProcess_during clearCurrent example_refined
          (example_world\<lparr>generateContent := example_no_image\<rparr>))
     = example_refined\<lparr>selectedFile := None, processedResult := None,
         error := Some ''Failed to process the image.''\<rparr>"
    by (simp add: handleProcess_during_def example_refined_source g t on_result_def
        clearCurrent_def)
       (simp add: example_refined_def example_image_def initial_def)
  have "truthy (processedResult example_refined)"
    by (simp add: example_refined_def)
  with run example_run_fails show ?thesis
    by (simp add: preview_def)
qed

text \<open>
  Claim C10, amended. Take a run on a source during which no other handler changes the
  state; it is the plain run. The start of the run clears the error and leaves the result
  alone: while the run
  is pending, the state is the one at dispatch with processing set and no error; after a
  successful run the error is empty. So when the run is a refine (a result was on display
  at dispatch) and ends in an empty result or a fault, it ends with the result it started
  with, still truthy and still in the preview pane, together with a truthy error in the
  banner; the stale result remains displayed.
\<close>

theorem failed_refine_keeps_result:
  assumes "selectedFile s = Some src" "src \<noteq> []"
    and "during (s\<lparr>isProcessing := True, error := None\<rparr>)
           = s\<lparr>isProcessing := True, error := None\<rparr>"
  shows "handleProcess_during during s w = handleProcess s w \<and>
         (fst (generate s src w) = Pending \<longrightarrow>
            fst (handleProcess_during during s w) = s\<lparr>isProcessing := True, error := None\<rparr>) \<and>
         (\<forall>r. fst (generate s src w) = Returned (Some r) \<and> r \<noteq> [] \<longrightarrow>
            error (fst (handleProcess_during during s w)) = None \<and>
            processedResult (fst (handleProcess_during during s w)) = Some r) \<and>
         (truthy (processedResult s) \<and> run_fails s w \<longrightarrow>
            processedResult (fst (handleProcess_during during s w)) = processedResult s \<and>
            truthy (error (fst (handleProcess_during during s w))) \<and>
            preview (fst (handleProcess_during during s w)) = processedResult s \<and>
            error_banner (fst (handleProcess_during during s w))
              = error (fst (handleProcess_during during s w)) \<and>
            isProcessing (fst (handleProcess_during during s w)) = False)"
proof -
  have same: "handleProcess_during during s w = handleProcess s w"
    using assms(3) by (rule handleProcess_during_same)
  obtain out tr where g: "generate s src w = (out, tr)" by (cases "generate s src w")
  have pending: "fst (generate s src w) = Pending \<longrightarrow>
      fst (handleProcess s w) = s\<lparr>isProcessing := True, error := None\<rparr>"
    using handleProcess_pending [OF assms(1,2), of w tr] g by simp
  have success: "\<forall>r. fst (generate s src w) = Returned (Some r) \<and> r \<noteq> [] \<longrightarrow>
      error (fst (handleProcess s w)) = None \<and> processedResult (fst (handleProcess s w)) = Some r"
    using handleProcess_success [OF assms(1,2), of w _ tr] g by simp
  have failure: "truthy (processedResult s) \<and> run_fails s w \<longrightarrow>
      processedResult (fst (handleProcess s w)) = processedResult s \<and>
      truthy (error (fst (handleProcess s w))) \<and>
      preview (fst (handleProcess s w)) = processedResult s \<and>
      error_banner (fst (handleProcess s w)) = error (fst (handleProcess s w)) \<and>
      isProcessing (fst (handleProcess s w)) = False"
  proof
    assume a: "truthy (processedResult s) \<and> run_fails s w"
    show "processedResult (fst (handleProcess s w)) = processedResult s \<and>
      truthy (error (fst (handleProcess s w))) \<and>
      preview (fst (handleProcess s w)) = processedResult s \<and>
      error_banner (fst (handleProcess s w)) = error (fst (handleProcess s w)) \<and>
      isProcessing (fst (handleProcess s w)) = False"
    proof (cases out)
      case (Returned r)
      with a assms(1,2) g have "\<not> truthy r" by (simp add: run_fails_def)
      from handleProcess_empty [OF assms(1,2) g [unfolded Returned] this] a assms(1,2)
      show ?thesis
        by (simp add: preview_def error_banner_def empty_result_message_nonempty)
    next
      case (Thrown err)
      from handleProcess_fault [OF assms(1,2) g [unfolded Thrown]] a assms(1,2) show ?thesis
        by (simp add: preview_def error_banner_def shown_message_nonempty key_error_def)
    next
      case Pending
      with a assms(1,2) g show ?thesis by (simp add: run_fails_def)
    qed
  qed
  from conjI [OF refl conjI [OF pending conjI [OF success failure]]] show ?thesis
    unfolding same .
qed

text \<open>
  A refine that fails, a video run whose polls are never answered with a done operation,
  and a successful run, each started with an old error on display.
\<close>

lemma example_pending:
  "fst (generate (example_video\<lparr>error := Some ''old''\<rparr>) ''data:video/mp4;base64,CCCC''
          (example_world\<lparr>getVideosOperation := []\<rparr>)) = Pending"
  by (simp add: generate_def processVideoWatermark_def example_video_def initial_def
      example_world_def not_done_def)

lemma example_succeeds:
  "fst (generate (example_image\<lparr>error := Some ''old''\<rparr>) ''data:image/png;base64,AAAA''
          example_world) = Returned (Some ''data:image/png;base64,BBBB'')"
  by (simp add: generate_def removeWatermarkFromImage_def example_image_def example_world_def
      response_parts_def initial_def)

theorem failed_refine_keeps_result_witness:
  "processedResult
     (fst (handleProcess_during (\<lambda>x. x) example_refined
        (example_world\<lparr>generateContent := example_no_image\<rparr>)))
     = Some ''data:image/png;base64,BBBB'' \<and>
   truthy (error
     (fst (handleProcess_during (\<lambda>x. x) example_refined
        (example_world\<lparr>generateContent := example_no_image\<rparr>)))) \<and>
   preview
     (fst (handleProcess_during (\<lambda>x. x) example_refined
        (example_world\<lparr>generateContent := Inl example_other_fault\<rparr>)))
     = Some ''data:image/png;base64,BBBB'' \<and>
   fst (handleProcess_during (\<lambda>x. x) (example_video\<lparr>error := Some ''old''\<rparr>)
          (example_world\<lparr>getVideosOperation := []\<rparr>))
     = example_video\<lparr>isProcessing := True\<rparr> \<and>
   error (fst (handleProcess_during (\<lambda>x. x) (example_image\<lparr>error := Some ''old''\<rparr>)
          example_world)) = None"
proof -
  have r: "truthy (processedResult example_refined)"
    "processedResult example_refined = Some ''data:image/png;base64,BBBB''"
    by (simp_all add: example_refined_def)
  have v: "selectedFile (example_video\<lparr>error := Some ''old''\<rparr>)
      = Some ''data:video/mp4;base64,CCCC''"
    by (simp add: example_video_source)
  have i: "selectedFile (example_image\<lparr>error := Some ''old''\<rparr>)
      = Some ''data:image/png;base64,AAAA''"
    by (simp add: example_image_source)
  have e: "example_video\<lparr>error := Some ''old''\<rparr>\<lparr>isProcessing := True, error := None\<rparr>
      = example_video\<lparr>isProcessing := True\<rparr>"
    by (simp add: example_video_def initial_def)
  from failed_refine_keeps_result [OF example_refined_source, of "\<lambda>x. x"
      "example_world\<lparr>generateContent := example_no_image\<rparr>", THEN conjunct2] r example_run_fails
  have 1: "processedResult
     (fst (handleProcess_during (\<lambda>x. x) example_refined
        (example_world\<lparr>generateContent := example_no_image\<rparr>)))
     = Some ''data:image/png;base64,BBBB'' \<and>
   truthy (error
     (fst (handleProcess_during (\<lambda>x. x) example_refined
        (example_world\<lparr>generateContent := example_no_image\<rparr>))))"
    by simp
  from failed_refine_keeps_result [OF example_refined_source, of "\<lambda>x. x"
      "example_world\<lparr>generateContent := Inl example_other_fault\<rparr>", THEN conjunct2] r example_run_throws
  have 2: "preview
     (fst (handleProcess_during (\<lambda>x. x) example_refined
        (example_world\<lparr>generateContent := Inl example_other_fault\<rparr>)))
     = Some ''data:image/png;base64,BBBB''"
    by simp
  from failed_refine_keeps_result [OF v, of "\<lambda>x. x" "example_world\<lparr>getVideosOperation := []\<rparr>", THEN conjunct2]
    example_pending e
  have 3: "fst (handleProcess_during (\<lambda>x. x) (example_video\<lparr>error := Some ''old''\<rparr>)
          (example_world\<lparr>getVideosOperation := []\<rparr>))
     = example_video\<lparr>isProcessing := True\<rparr>"
    by simp
  from failed_refine_keeps_result [OF i, of "\<lambda>x. x" example_world, THEN conjunct2] example_succeeds
  have 4: "error (fst (handleProcess_during (\<lambda>x. x) (example_image\<lparr>error := Some ''old''\<rparr>)
          example_world)) = None"
    by simp
  from conjI [OF 1 conjI [OF 2 conjI [OF 3 4]]] show ?thesis
    by (simp only: conj_assoc)
qed

subsection \<open>A fault during processing\<close>


lemma example_denied_marker: "has_marker example_denied"
  by (simp add: has_marker_def example_denied_def auth_marker_def startsWith_def)




text \<open>
  In video mode with no key selected, \<^verbatim>\<open>checkAndPromptKey\<close> has opened the key selection
  before the submission: a run that then meets the marker opens it a second time.
\<close>

lemma example_two_prompts:
  "snd (handleProcess example_video
          (example_world\<lparr>hasSelectedApiKey := False, generateVideos := Inl example_denied\<rparr>)) =
     [HasSelectedApiKey, OpenSelectKey,
      GenerateVideos ''veo-3.1-fast-generate-preview'' (video_prompt ''A beach'') 1 ''720p'' R16_9,
      ConsoleError ''Video Generation Error:'' example_denied,
      OpenSelectKey, ConsoleError [] example_denied]"
proof -
  have "generate example_video ''data:video/mp4;base64,CCCC''
          (example_world\<lparr>hasSelectedApiKey := False, generateVideos := Inl example_denied\<rparr>) =
     (Thrown example_denied,
      [HasSelectedApiKey, OpenSelectKey,
       GenerateVideos ''veo-3.1-fast-generate-preview'' (video_prompt ''A beach'') 1 ''720p'' R16_9,
       ConsoleError ''Video Generation Error:'' example_denied])"
    by (simp add: generate_def processVideoWatermark_def checkAndPromptKey_def example_video_def
        initial_def)
  from handleProcess_fault [OF example_video_source _ this] example_denied_marker
  show ?thesis by simp
qed

subsection \<open>What the generation client is given\<close>









subsection \<open>Selecting a file\<close>

text \<open>
  Claim C7. A file whose declared type does not fit the active mode is rejected: the state
  after \<^verbatim>\<open>handleFileSelect\<close> is the state before it with the error set to the mode's
  wrong-type message; the source is untouched, and no call is made to the outside world:
  no network call and no encoding.
\<close>

theorem wrong_file_type_rejected:
  assumes "wrong_type (activeTab s) f"
  shows "handleFileSelect s (Some f) answer =
           (s\<lparr>error := Some (wrong_type_message (activeTab s))\<rparr>, []) \<and>
         selectedFile (fst (handleFileSelect s (Some f) answer)) = selectedFile s"
  using assms
  by (cases "activeTab s")
     (simp_all add: handleFileSelect_def wrong_type_def wrong_type_message_def)

theorem wrong_file_type_rejected_witness:
  "handleFileSelect example_refined (Some example_clip) (Inr ''data:video/mp4;base64,CCCC'') =
     (example_refined\<lparr>error := Some ''Please select an image file.''\<rparr>, []) \<and>
   handleFileSelect example_video (Some example_upload) (Inr ''data:image/png;base64,AAAA'') =
     (example_video\<lparr>error := Some ''Please select a video file.''\<rparr>, [])"
  using wrong_file_type_rejected
          [of example_refined example_clip "Inr ''data:video/mp4;base64,CCCC''"]
    wrong_file_type_rejected
          [of example_video example_upload "Inr ''data:image/png;base64,AAAA''"]
  by (simp add: wrong_type_def wrong_type_message_def example_refined_def example_image_def
      example_video_def initial_def example_clip_def example_upload_def startsWith_def)

text \<open>
  Claim C9. For a file that passes the type check, the MIME type of the state is set to
  the file's declared type whatever the reader answers. When the reader fails, the state
  after the handler is the state before it with that MIME type and the read error: the
  source is the old one, the MIME type describes the file that was never loaded.
\<close>

theorem mimeType_set_before_encoding:
  assumes "\<not> wrong_type (activeTab s) f"
  shows "mimeType (fst (handleFileSelect s (Some f) answer)) = file_type f \<and>
         handleFileSelect s (Some f) (Inl e) =
           (s\<lparr>mimeType := file_type f, error := Some ''Error reading file.''\<rparr>,
            [ReadAsDataURL f]) \<and>
         selectedFile (fst (handleFileSelect s (Some f) (Inl e))) = selectedFile s"
  using assms
  by (cases "activeTab s"; cases answer)
     (simp_all add: handleFileSelect_def wrong_type_def fileToBase64_def)

theorem mimeType_set_before_encoding_witness:
  "handleFileSelect example_refined (Some (File ''b.gif'' ''image/gif'')) (Inl (Fault None)) =
     (example_refined\<lparr>mimeType := ''image/gif'', error := Some ''Error reading file.''\<rparr>,
      [ReadAsDataURL (File ''b.gif'' ''image/gif'')]) \<and>
   selectedFile
     (fst (handleFileSelect example_refined (Some (File ''b.gif'' ''image/gif'')) (Inl (Fault None))))
     = Some ''data:image/png;base64,AAAA'' \<and>
   mimeType example_refined = ''image/png''"
  using mimeType_set_before_encoding
          [of example_refined "File ''b.gif'' ''image/gif''" "Inl (Fault None)" "Fault None"]
  by (simp add: wrong_type_def example_refined_def example_image_def initial_def startsWith_def)

subsection \<open>Selecting a history entry\<close>

text \<open>
  The click sets the mode, the source and the result from the entry, and nothing else:
  the error, the MIME type, the history and the processing flag stay.
\<close>

lemma history_onClick_restores:
  "activeTab (history_onClick item s) = entry_type item \<and>
   selectedFile (history_onClick item s) = Some (original item) \<and>
   processedResult (history_onClick item s) = Some (edited item)"
  by (simp add: history_onClick_def)

lemma history_onClick_frame:
  "error (history_onClick item s) = error s \<and>
   mimeType (history_onClick item s) = mimeType s \<and>
   history (history_onClick item s) = history s \<and>
   isProcessing (history_onClick item s) = isProcessing s"
  by (simp add: history_onClick_def)

text \<open>
  Claim C3 says that selecting a history entry restores mode, source and result from the
  entry and leaves the session with no error. The handler restores the three fields and
  does not touch the error. In the example session (one successful edit, then a refine
  whose answer has no image) a click on the entry of the first edit shows its result
  together with the error of the failed refine.
\<close>

theorem history_select_keeps_error:
  "history_onClick example_entry
     (fst (handleProcess example_refined (example_world\<lparr>generateContent := example_no_image\<rparr>)))
   = example_refined\<lparr>error := Some ''Failed to process the image.''\<rparr> \<and>
   processedResult example_refined = Some (edited example_entry) \<and>
   error (history_onClick example_entry
     (fst (handleProcess example_refined (example_world\<lparr>generateContent := example_no_image\<rparr>))))
   = Some ''Failed to process the image.''"
  by (simp add: example_second_run)
     (simp add: history_onClick_def example_refined_def example_entry_def example_image_def
        initial_def)

end
